theory Spec2Isabelle
  imports Main "HOL-Library.Multiset"
begin

section \<open>Values\<close>

text \<open>
  Records, schema documents and custom values are untyped JavaScript values
  (\<^verbatim>\<open>unknown\<close> in the source). The model keeps the JSON kinds and
  \<^verbatim>\<open>undefined\<close>. An object is its list of own properties in insertion order;
  a property read takes the first binding of a key. Numbers carry an integer only: no
  function below reads the value of a number, apart from its truthiness.
  Members that a value inherits from the prototype objects of the runtime
  (\<^verbatim>\<open>toString\<close>, \<^verbatim>\<open>constructor\<close>, ...) are not part of the model: a read of
  a key that is not an own property yields \<^verbatim>\<open>undefined\<close>.
\<close>

datatype jsval =
    JUndefined
  | JNull
  | JBool bool
  | JNum int
  | JStr string
  | JArr "jsval list"
  | JObj "(string \<times> jsval) list"

text \<open>
  A thrown value. \<^verbatim>\<open>error instanceof Error ? error.message : String(error)\<close> reads
  its message; the three kinds are the ones the source and the runtime raise.
\<close>

datatype error =
    Error string
  | NodeOperationError string
  | TypeError string

fun error_message :: "error \<Rightarrow> string" where
  "error_message (Error m) = m"
| "error_message (NodeOperationError m) = m"
| "error_message (TypeError m) = m"

fun typeof :: "jsval \<Rightarrow> string" where
  "typeof JUndefined = ''undefined''"
| "typeof JNull = ''object''"
| "typeof (JBool b) = ''boolean''"
| "typeof (JNum n) = ''number''"
| "typeof (JStr s) = ''string''"
| "typeof (JArr xs) = ''object''"
| "typeof (JObj kvs) = ''object''"

text \<open>JavaScript truthiness, as \<^verbatim>\<open>!x\<close>, \<^verbatim>\<open>x || y\<close> and \<^verbatim>\<open>if (x)\<close> use it.\<close>

fun truthy :: "jsval \<Rightarrow> bool" where
  "truthy JUndefined = False"
| "truthy JNull = False"
| "truthy (JBool b) = b"
| "truthy (JNum n) = (n \<noteq> 0)"
| "truthy (JStr s) = (s \<noteq> [])"
| "truthy (JArr xs) = True"
| "truthy (JObj kvs) = True"

definition Array_isArray :: "jsval \<Rightarrow> bool" where
  "Array_isArray v = (case v of JArr xs \<Rightarrow> True | _ \<Rightarrow> False)"

section \<open>Strings: split, the array-notation pattern, parseInt\<close>

text \<open>\<^verbatim>\<open>s.split(sep)\<close> for a one-character separator; the empty string splits to one empty part.\<close>

fun split_on :: "char \<Rightarrow> string \<Rightarrow> string list" where
  "split_on sep [] = [[]]"
| "split_on sep (c # cs) =
     (if c = sep then [] # split_on sep cs
      else (case split_on sep cs of
              [] \<Rightarrow> [[c]]
            | p # ps \<Rightarrow> (c # p) # ps))"

text \<open>The character classes \<^verbatim>\<open>\d\<close> and \<^verbatim>\<open>\w\<close> of a pattern without flags.\<close>

definition is_digit :: "char \<Rightarrow> bool" where
  "is_digit c = (c \<in> set ''0123456789'')"

definition is_word :: "char \<Rightarrow> bool" where
  "is_word c =
     (c \<in> set ''abcdefghijklmnopqrstuvwxyzABCDEFGHIJKLMNOPQRSTUVWXYZ0123456789_'')"

definition digit_val :: "char \<Rightarrow> nat" where
  "digit_val c = length (takeWhile (\<lambda>d. d \<noteq> c) ''0123456789'')"

text \<open>\<^verbatim>\<open>parseInt(ds, 10)\<close> on a non-empty string of decimal digits.\<close>

definition parseInt10 :: "string \<Rightarrow> nat" where
  "parseInt10 ds = foldl (\<lambda>n c. 10 * n + digit_val c) 0 ds"

text \<open>
  \<^verbatim>\<open>part.match(/^(\w+)\[(\d+)\]$/)\<close>: the two groups when the whole part is word
  characters, an opening bracket, digits and a closing bracket. A bracket is not a word
  character, so the first group is the longest prefix of word characters.
\<close>

definition match_array_notation :: "string \<Rightarrow> (string \<times> string) option" where
  "match_array_notation part =
     (let w = takeWhile is_word part; r = dropWhile is_word part in
      if w \<noteq> [] \<and> r \<noteq> [] \<and> hd r = CHR ''['' \<and> tl r \<noteq> [] \<and> last (tl r) = CHR '']''
         \<and> butlast (tl r) \<noteq> [] \<and> list_all is_digit (butlast (tl r))
      then Some (w, butlast (tl r))
      else None)"

section \<open>Path extraction (dataExtractor.ts)\<close>

datatype part = Key string | Index nat

text \<open>The callback of \<^verbatim>\<open>flatMap\<close>: two parts for array notation, else the part itself.\<close>

definition parse_part :: "string \<Rightarrow> part list" where
  "parse_part p =
     (case match_array_notation p of
        Some (name, idx) \<Rightarrow> [Key name, Index (parseInt10 idx)]
      | None \<Rightarrow> [Key p])"

definition path_parts :: "string \<Rightarrow> part list" where
  "path_parts path = concat (map parse_part (split_on CHR ''.'' path))"

text \<open>
  A key of an array that is an array index: the decimal numeral of a number, without
  leading zeros.
\<close>

definition is_index_key :: "string \<Rightarrow> bool" where
  "is_index_key k = (k \<noteq> [] \<and> list_all is_digit k \<and> (k = ''0'' \<or> hd k \<noteq> CHR ''0''))"

definition nth_or_undefined :: "jsval list \<Rightarrow> nat \<Rightarrow> jsval" where
  "nth_or_undefined xs n = (if n < length xs then xs ! n else JUndefined)"

text \<open>
  The member read \<^verbatim>\<open>current[part]\<close>. On \<^verbatim>\<open>null\<close> and \<^verbatim>\<open>undefined\<close> the
  runtime raises a TypeError; on an array a number or an index key reads the element
  (\<^verbatim>\<open>undefined\<close> out of range) and \<^verbatim>\<open>length\<close> its length; on an object the key
  reads the own property.
\<close>

fun js_get :: "jsval \<Rightarrow> part \<Rightarrow> error + jsval" where
  "js_get JUndefined p = Inl (TypeError ''Cannot read properties of undefined'')"
| "js_get JNull p = Inl (TypeError ''Cannot read properties of null'')"
| "js_get (JArr xs) (Index n) = Inr (nth_or_undefined xs n)"
| "js_get (JArr xs) (Key k) =
     Inr (if is_index_key k then nth_or_undefined xs (parseInt10 k)
          else if k = ''length'' then JNum (int (length xs))
          else JUndefined)"
| "js_get (JObj kvs) (Key k) =
     Inr (case map_of kvs k of Some v \<Rightarrow> v | None \<Rightarrow> JUndefined)"
| "js_get (JObj kvs) (Index n) = Inr JUndefined"
| "js_get (JBool b) p = Inr JUndefined"
| "js_get (JNum n) p = Inr JUndefined"
| "js_get (JStr s) p = Inr JUndefined"

text \<open>The loop over the parts, \<^verbatim>\<open>current\<close> being the loop variable.\<close>

fun walk :: "jsval \<Rightarrow> part list \<Rightarrow> error + jsval" where
  "walk current [] = Inr current"
| "walk current (p # ps) =
     (if current = JNull \<or> current = JUndefined then Inr JUndefined
      else (case p of
              Index n \<Rightarrow>
                (if \<not> Array_isArray current then Inr JUndefined
                 else (case js_get current (Index n) of
                         Inl e \<Rightarrow> Inl e
                       | Inr v \<Rightarrow> walk v ps))
            | Key k \<Rightarrow>
                (if typeof current \<noteq> ''object'' then Inr JUndefined
                 else (case js_get current (Key k) of
                         Inl e \<Rightarrow> Inl e
                       | Inr v \<Rightarrow> walk v ps))))"

text \<open>
  An input item of the host (\<^verbatim>\<open>INodeExecutionData\<close>), with the fields the node reads
  or writes: its data, its optional binary payload and its optional position reference.
  \<^verbatim>\<open>{...item, pairedItem: itemIndex}\<close> is the record update of \<open>pairedItem\<close>.
\<close>

record item =
  json :: jsval
  binary :: "(string \<times> string) list option"
  pairedItem :: "nat option"

definition extractDataFromPath :: "item \<Rightarrow> string \<Rightarrow> error + jsval" where
  "extractDataFromPath it path = walk (json it) (path_parts path)"

section \<open>Configured schemas\<close>

text \<open>One entry of the \<^verbatim>\<open>schemas\<close> parameter of multiple schemas mode.\<close>

record schemaItem =
  schemaName :: string
  schema :: jsval
  dataPath :: "string option"

section \<open>The validator boundary (validator.ts)\<close>

text \<open>
  A raw diagnostic of the schema compiler (\<^verbatim>\<open>ErrorObject\<close>). The source guards
  the instance path, the message and the parameters with \<^verbatim>\<open>||\<close>, so each may be
  absent.
\<close>

record ErrorObject =
  instancePath :: "string option"
  message :: "string option"
  keyword :: string
  params :: "(string \<times> jsval) list option"

record ValidationError =
  field :: string
  message :: string
  keyword :: string
  params :: "(string \<times> jsval) list"

record JsonSchemaCheck =
  isValid :: bool
  error :: "string option"

record ValidationResult =
  isValid :: bool
  errors :: "ValidationError list"

record MultiSchemaValidationResult = ValidationResult +
  schemaName :: string

text \<open>
  A compiled validator: called on a value it raises, or returns a boolean and leaves its
  diagnostics in its \<^verbatim>\<open>errors\<close> property (\<^verbatim>\<open>null\<close> is \<open>None\<close>). The model
  returns the property together with the boolean.
\<close>

type_synonym ValidateFunction = "jsval \<Rightarrow> error + bool \<times> ErrorObject list option"

text \<open>The configured compiler instance, as its \<^verbatim>\<open>compile\<close> method.\<close>

type_synonym Ajv = "jsval \<Rightarrow> error + ValidateFunction"

text \<open>\<^verbatim>\<open>JSON.parse\<close> of the runtime: the decoded value, or the error it raises.\<close>

type_synonym JSON_parse = "string \<Rightarrow> error + jsval"

text \<open>\<^verbatim>\<open>s || d\<close> for a string that may be absent: the empty string is falsy too.\<close>

definition str_or :: "string option \<Rightarrow> string \<Rightarrow> string" where
  "str_or s d = (case s of None \<Rightarrow> d | Some x \<Rightarrow> if x = [] then d else x)"

fun join :: "string \<Rightarrow> string list \<Rightarrow> string" where
  "join sep [] = []"
| "join sep [x] = x"
| "join sep (x # y # ys) = x @ sep @ join sep (y # ys)"

definition isValidJsonSchema :: "jsval \<Rightarrow> Ajv \<Rightarrow> JsonSchemaCheck" where
  "isValidJsonSchema sch ajvInstance =
     (case ajvInstance sch of
        Inr v \<Rightarrow> \<lparr>JsonSchemaCheck.isValid = True, error = None\<rparr>
      | Inl e \<Rightarrow> \<lparr>JsonSchemaCheck.isValid = False, error = Some (error_message e)\<rparr>)"

definition createValidator :: "jsval \<Rightarrow> Ajv \<Rightarrow> error + ValidateFunction" where
  "createValidator sch ajvInstance = ajvInstance sch"

text \<open>The argument is the \<^verbatim>\<open>errors\<close> property of the validator.\<close>

definition transformValidationErrors :: "ErrorObject list option \<Rightarrow> ValidationError list" where
  "transformValidationErrors validator_errors =
     (case validator_errors of
        None \<Rightarrow> []
      | Some errs \<Rightarrow>
          map (\<lambda>err. \<lparr>field = str_or (instancePath err) ''/'',
                      message = str_or (ErrorObject.message err) ''Validation failed'',
                      keyword = ErrorObject.keyword err,
                      params = (case ErrorObject.params err of Some p \<Rightarrow> p | None \<Rightarrow> [])\<rparr>)
              errs)"

definition validateData :: "ValidateFunction \<Rightarrow> jsval \<Rightarrow> error + ValidationResult" where
  "validateData validator data =
     (case validator data of
        Inl e \<Rightarrow> Inl e
      | Inr (valid, validator_errors) \<Rightarrow>
          Inr \<lparr>isValid = valid,
               errors = (if valid then [] else transformValidationErrors validator_errors)\<rparr>)"

definition formatValidationErrorMessage :: "ValidationError list \<Rightarrow> string" where
  "formatValidationErrorMessage errs = join '', '' (map (\<lambda>err. field err @ '': '' @ message err) errs)"

section \<open>Schema and custom-value parsing (schemaParser.ts, dataExtractor.ts)\<close>

definition parseSchema :: "JSON_parse \<Rightarrow> jsval \<Rightarrow> error + jsval" where
  "parseSchema JSON_parse schemaJson =
     (case schemaJson of
        JStr s \<Rightarrow>
          (case JSON_parse s of
             Inl e \<Rightarrow> Inl (Error (''Invalid JSON schema format: '' @ error_message e))
           | Inr v \<Rightarrow> Inr v)
      | _ \<Rightarrow> Inr schemaJson)"

definition extractCustomJsonData :: "JSON_parse \<Rightarrow> jsval \<Rightarrow> error + jsval" where
  "extractCustomJsonData JSON_parse customJsonParam =
     (case customJsonParam of
        JStr s \<Rightarrow>
          (case JSON_parse s of
             Inl e \<Rightarrow> Inl (Error (''Invalid custom JSON: '' @ error_message e))
           | Inr v \<Rightarrow> Inr v)
      | _ \<Rightarrow> Inr customJsonParam)"

definition extractDataToValidate :: "JSON_parse \<Rightarrow> item \<Rightarrow> string \<Rightarrow> jsval \<Rightarrow> error + jsval" where
  \<open>extractDataToValidate JSON_parse it dataSource customJsonParam =
     (if dataSource = ''customJson'' then
        (if \<not> truthy customJsonParam
         then Inl (Error ''Custom JSON is required when Data Source is "Custom JSON"'')
         else extractCustomJsonData JSON_parse customJsonParam)
      else Inr (json it))\<close>

section \<open>Output records\<close>

definition digit_char :: "nat \<Rightarrow> char" where
  "digit_char d = ''0123456789'' ! d"

fun show_nat :: "nat \<Rightarrow> string" where
  "show_nat n = (if n < 10 then [digit_char n] else show_nat (n div 10) @ [digit_char (n mod 10)])"

declare show_nat.simps [simp del]

text \<open>\<^verbatim>\<open>{...obj, k: v}\<close>: a later binding replaces the value of a key already bound.\<close>

fun set_prop :: "(string \<times> jsval) list \<Rightarrow> string \<Rightarrow> jsval \<Rightarrow> (string \<times> jsval) list" where
  "set_prop [] k v = [(k, v)]"
| "set_prop (p # ps) k v = (if fst p = k then (k, v) # ps else p # set_prop ps k v)"

text \<open>The own enumerable properties that \<^verbatim>\<open>{...v}\<close> copies.\<close>

fun spread :: "jsval \<Rightarrow> (string \<times> jsval) list" where
  "spread (JObj kvs) = kvs"
| "spread (JArr xs) = map (\<lambda>i. (show_nat i, xs ! i)) [0..<length xs]"
| "spread (JStr s) = map (\<lambda>i. (show_nat i, JStr [s ! i])) [0..<length s]"
| "spread v = []"

definition json_of_error :: "ValidationError \<Rightarrow> jsval" where
  "json_of_error e =
     JObj [(''field'', JStr (field e)), (''message'', JStr (message e)),
           (''keyword'', JStr (keyword e)), (''params'', JObj (params e))]"

definition json_of_result :: "MultiSchemaValidationResult \<Rightarrow> jsval" where
  "json_of_result r =
     JObj [(''schemaName'', JStr (schemaName r)), (''isValid'', JBool (isValid r)),
           (''errors'', JArr (map json_of_error (errors r)))]"

record options =
  includeErrorDetails :: "bool option"
  includeOriginalData :: "bool option"

text \<open>The node parameters that \<^verbatim>\<open>context.getNodeParameter\<close> reads.\<close>

record IExecuteFunctions =
  validationMode :: string
  jsonSchema :: jsval
  dataSource :: string
  customJson :: "nat \<Rightarrow> error + jsval"
  schemaItems :: "schemaItem list option"
  matchMode :: string

section \<open>Single schema mode (SchemaValidator.node.ts)\<close>

text \<open>The fields of the original record that a diagnostic record starts from.\<close>

definition original_fields :: "options \<Rightarrow> item \<Rightarrow> (string \<times> jsval) list" where
  "original_fields opts it =
     (if includeOriginalData opts = Some True then spread (json it) else [])"

text \<open>The diagnostic record of a record that fails validation.\<close>

definition single_invalid_item :: "options \<Rightarrow> item \<Rightarrow> nat \<Rightarrow> ValidationResult \<Rightarrow> item" where
  "single_invalid_item opts it itemIndex result =
     (let errorMessage = formatValidationErrorMessage (errors result) in
      \<lparr>json = JObj (set_prop
                (set_prop (original_fields opts it) ''validationErrors''
                   (if includeErrorDetails opts \<noteq> Some False
                    then JArr (map json_of_error (errors result)) else JUndefined))
                ''validationMessage'' (JStr errorMessage)),
       binary = (if includeOriginalData opts = Some True \<and> binary it \<noteq> None
                 then binary it else None),
       pairedItem = Some itemIndex\<rparr>)"

text \<open>The diagnostic record of the \<^verbatim>\<open>catch\<close> block.\<close>

definition single_caught_item :: "options \<Rightarrow> item \<Rightarrow> nat \<Rightarrow> error \<Rightarrow> item" where
  "single_caught_item opts it itemIndex err =
     (let errorMessage = error_message err in
      \<lparr>json = JObj (set_prop
                (set_prop (original_fields opts it) ''validationErrors''
                   (JArr [json_of_error \<lparr>field = ''/'', message = errorMessage,
                                          keyword = ''parse'', params = []\<rparr>]))
                ''validationMessage'' (JStr errorMessage)),
       binary = None,
       pairedItem = Some itemIndex\<rparr>)"

text \<open>The statements of the \<^verbatim>\<open>try\<close> block up to the validation result.\<close>

definition single_try ::
  "JSON_parse \<Rightarrow> IExecuteFunctions \<Rightarrow> ValidateFunction \<Rightarrow> nat \<Rightarrow> item \<Rightarrow> error + ValidationResult" where
  "single_try JSON_parse context validator itemIndex it =
     (case (if dataSource context = ''customJson'' then customJson context itemIndex
            else Inr JUndefined) of
        Inl e \<Rightarrow> Inl e
      | Inr customJsonParam \<Rightarrow>
          (case extractDataToValidate JSON_parse it (dataSource context) customJsonParam of
             Inl e \<Rightarrow> Inl e
           | Inr dataToValidate \<Rightarrow> validateData validator dataToValidate))"

text \<open>One iteration of the loop: exactly one of the two output arrays gets one more item.\<close>

definition single_iteration ::
  "JSON_parse \<Rightarrow> IExecuteFunctions \<Rightarrow> ValidateFunction \<Rightarrow> options \<Rightarrow> nat \<Rightarrow> item
     \<Rightarrow> item list \<times> item list \<Rightarrow> item list \<times> item list" where
  "single_iteration JSON_parse context validator opts itemIndex it out =
     (case out of (validItems, invalidItems) \<Rightarrow>
        (case single_try JSON_parse context validator itemIndex it of
           Inr result \<Rightarrow>
             (if isValid result
              then (validItems @ [it\<lparr>pairedItem := Some itemIndex\<rparr>], invalidItems)
              else (validItems, invalidItems @ [single_invalid_item opts it itemIndex result]))
         | Inl err \<Rightarrow>
             (validItems, invalidItems @ [single_caught_item opts it itemIndex err])))"

fun single_loop ::
  "JSON_parse \<Rightarrow> IExecuteFunctions \<Rightarrow> ValidateFunction \<Rightarrow> options \<Rightarrow> nat \<Rightarrow> item list
     \<Rightarrow> item list \<times> item list \<Rightarrow> item list \<times> item list" where
  "single_loop JSON_parse context validator opts itemIndex [] out = out"
| "single_loop JSON_parse context validator opts itemIndex (it # rest) out =
     single_loop JSON_parse context validator opts (Suc itemIndex) rest
       (single_iteration JSON_parse context validator opts itemIndex it out)"

text \<open>The up-front check of the schema: its result, or the error the run fails with.\<close>

definition single_schema_check :: "JSON_parse \<Rightarrow> IExecuteFunctions \<Rightarrow> Ajv \<Rightarrow> error + jsval" where
  "single_schema_check JSON_parse context ajv =
     (case (case parseSchema JSON_parse (jsonSchema context) of
              Inl e \<Rightarrow> Inl e
            | Inr sch \<Rightarrow>
                (let validationResult = isValidJsonSchema sch ajv in
                 if \<not> JsonSchemaCheck.isValid validationResult
                 then Inl (Error (''Invalid JSON Schema: ''
                                   @ str_or (error validationResult) ''Unknown error''))
                 else Inr sch)) of
        Inl e \<Rightarrow> Inl (NodeOperationError (error_message e))
      | Inr sch \<Rightarrow> Inr sch)"

definition executeSingleSchemaMode ::
  "JSON_parse \<Rightarrow> IExecuteFunctions \<Rightarrow> item list \<Rightarrow> item list \<Rightarrow> item list \<Rightarrow> Ajv \<Rightarrow> options
     \<Rightarrow> error + item list \<times> item list" where
  "executeSingleSchemaMode JSON_parse context items validItems invalidItems ajv opts =
     (case single_schema_check JSON_parse context ajv of
        Inl e \<Rightarrow> Inl e
      | Inr sch \<Rightarrow>
          (case createValidator sch ajv of
             Inl e \<Rightarrow> Inl e
           | Inr validator \<Rightarrow>
               Inr (single_loop JSON_parse context validator opts 0 items
                      (validItems, invalidItems))))"

section \<open>Multiple schemas mode (SchemaValidator.node.ts)\<close>

record compiledSchema =
  name :: string
  validator :: ValidateFunction
  dataPath :: string

definition schema_label :: "schemaItem \<Rightarrow> nat \<Rightarrow> string" where
  "schema_label si index =
     str_or (Some (schemaItem.schemaName si)) (''Schema '' @ show_nat (index + 1))"

text \<open>The callback of \<^verbatim>\<open>schemas.map\<close>: the compiled schema, or the fatal error.\<close>

definition compileSchema :: "JSON_parse \<Rightarrow> Ajv \<Rightarrow> schemaItem \<Rightarrow> nat \<Rightarrow> error + compiledSchema" where
  \<open>compileSchema JSON_parse ajv si index =
     (case (case parseSchema JSON_parse (schema si) of
              Inl e \<Rightarrow> Inl e
            | Inr sch \<Rightarrow>
                (let validationResult = isValidJsonSchema sch ajv in
                 if \<not> JsonSchemaCheck.isValid validationResult
                 then Inl (Error (''Invalid JSON Schema "'' @ schema_label si index @ ''": ''
                                   @ str_or (error validationResult) ''Unknown error''))
                 else (case createValidator sch ajv of
                         Inl e \<Rightarrow> Inl e
                       | Inr v \<Rightarrow>
                           Inr \<lparr>name = schema_label si index, validator = v,
                                dataPath = str_or (schemaItem.dataPath si) ''''\<rparr>))) of
        Inl e \<Rightarrow>
          Inl (NodeOperationError (''Error compiling schema "'' @ schema_label si index @ ''": ''
                                    @ error_message e))
      | Inr c \<Rightarrow> Inr c)\<close>

fun compileSchemas :: "JSON_parse \<Rightarrow> Ajv \<Rightarrow> nat \<Rightarrow> schemaItem list \<Rightarrow> error + compiledSchema list" where
  "compileSchemas JSON_parse ajv index [] = Inr []"
| "compileSchemas JSON_parse ajv index (si # rest) =
     (case compileSchema JSON_parse ajv si index of
        Inl e \<Rightarrow> Inl e
      | Inr c \<Rightarrow>
          (case compileSchemas JSON_parse ajv (Suc index) rest of
             Inl e \<Rightarrow> Inl e
           | Inr cs \<Rightarrow> Inr (c # cs)))"

text \<open>The result pushed when the data path resolves to \<^verbatim>\<open>undefined\<close>.\<close>

definition path_not_found_result :: "compiledSchema \<Rightarrow> MultiSchemaValidationResult" where
  \<open>path_not_found_result cs =
     \<lparr>isValid = False,
      errors = [\<lparr>field = dataPath cs,
                 message = ''Path "'' @ dataPath cs @ ''" not found in item'',
                 keyword = ''path'',
                 params = [(''path'', JStr (dataPath cs))]\<rparr>],
      schemaName = name cs\<rparr>\<close>

text \<open>The \<^verbatim>\<open>try\<close> block of one schema: the result it pushes, or the error it raises.\<close>

definition schema_try :: "item \<Rightarrow> compiledSchema \<Rightarrow> error + MultiSchemaValidationResult" where
  "schema_try it cs =
     (case (if dataPath cs \<noteq> [] then
              (case extractDataFromPath it (dataPath cs) of
                 Inl e \<Rightarrow> Inl e
               | Inr dataToValidate \<Rightarrow>
                   (if dataToValidate = JUndefined then Inr (Inl (path_not_found_result cs))
                    else Inr (Inr dataToValidate)))
            else Inr (Inr (json it))) of
        Inl e \<Rightarrow> Inl e
      | Inr (Inl synthetic) \<Rightarrow> Inr synthetic
      | Inr (Inr dataToValidate) \<Rightarrow>
          (case validateData (validator cs) dataToValidate of
             Inl e \<Rightarrow> Inl e
           | Inr result \<Rightarrow>
               Inr \<lparr>isValid = isValid result, errors = errors result, schemaName = name cs\<rparr>))"

definition schema_result :: "item \<Rightarrow> compiledSchema \<Rightarrow> MultiSchemaValidationResult" where
  "schema_result it cs =
     (case schema_try it cs of
        Inr r \<Rightarrow> r
      | Inl err \<Rightarrow>
          \<lparr>isValid = False,
           errors = [\<lparr>field = ''/'', message = error_message err,
                      keyword = ''parse'', params = []\<rparr>],
           schemaName = name cs\<rparr>)"

text \<open>The inner loop: one result pushed per compiled schema, in configured order.\<close>

fun schema_loop ::
  "item \<Rightarrow> compiledSchema list \<Rightarrow> MultiSchemaValidationResult list \<Rightarrow> MultiSchemaValidationResult list" where
  "schema_loop it [] schemaResults = schemaResults"
| "schema_loop it (cs # rest) schemaResults =
     schema_loop it rest (schemaResults @ [schema_result it cs])"

definition isItemValid :: "string \<Rightarrow> MultiSchemaValidationResult list \<Rightarrow> bool" where
  "isItemValid mode schemaResults =
     (if mode = ''all'' then list_all isValid schemaResults else list_ex isValid schemaResults)"

definition multi_error_messages :: "MultiSchemaValidationResult list \<Rightarrow> string" where
  "multi_error_messages schemaResults =
     (let failedSchemas = filter (\<lambda>r. \<not> isValid r) schemaResults in
      join ''; '' (map (\<lambda>r. ''['' @ schemaName r @ ''] '' @ formatValidationErrorMessage (errors r))
                       failedSchemas))"

definition multi_invalid_item ::
  "options \<Rightarrow> item \<Rightarrow> nat \<Rightarrow> MultiSchemaValidationResult list \<Rightarrow> item" where
  "multi_invalid_item opts it itemIndex schemaResults =
     \<lparr>json = JObj (set_prop
               (set_prop (original_fields opts it) ''validationResults''
                  (if includeErrorDetails opts \<noteq> Some False
                   then JArr (map json_of_result schemaResults) else JUndefined))
               ''validationMessage'' (JStr (multi_error_messages schemaResults))),
      binary = (if includeOriginalData opts = Some True \<and> binary it \<noteq> None
                then binary it else None),
      pairedItem = Some itemIndex\<rparr>"

definition multi_iteration ::
  "string \<Rightarrow> compiledSchema list \<Rightarrow> options \<Rightarrow> nat \<Rightarrow> item
     \<Rightarrow> item list \<times> item list \<Rightarrow> item list \<times> item list" where
  "multi_iteration mode compiledSchemas opts itemIndex it out =
     (case out of (validItems, invalidItems) \<Rightarrow>
        (let schemaResults = schema_loop it compiledSchemas [] in
         if isItemValid mode schemaResults
         then (validItems @ [it\<lparr>pairedItem := Some itemIndex\<rparr>], invalidItems)
         else (validItems, invalidItems @ [multi_invalid_item opts it itemIndex schemaResults])))"

fun multi_loop ::
  "string \<Rightarrow> compiledSchema list \<Rightarrow> options \<Rightarrow> nat \<Rightarrow> item list
     \<Rightarrow> item list \<times> item list \<Rightarrow> item list \<times> item list" where
  "multi_loop mode compiledSchemas opts itemIndex [] out = out"
| "multi_loop mode compiledSchemas opts itemIndex (it # rest) out =
     multi_loop mode compiledSchemas opts (Suc itemIndex) rest
       (multi_iteration mode compiledSchemas opts itemIndex it out)"

definition executeMultipleSchemaMode ::
  "JSON_parse \<Rightarrow> IExecuteFunctions \<Rightarrow> item list \<Rightarrow> item list \<Rightarrow> item list \<Rightarrow> Ajv \<Rightarrow> options
     \<Rightarrow> error + item list \<times> item list" where
  "executeMultipleSchemaMode JSON_parse context items validItems invalidItems ajv opts =
     (let schemas = (case schemaItems context of None \<Rightarrow> [] | Some xs \<Rightarrow> xs) in
      if length schemas = 0
      then Inl (NodeOperationError ''At least one schema is required in multiple schemas mode'')
      else (case compileSchemas JSON_parse ajv 0 schemas of
              Inl e \<Rightarrow> Inl e
            | Inr compiledSchemas \<Rightarrow>
                Inr (multi_loop (matchMode context) compiledSchemas opts 0 items
                       (validItems, invalidItems))))"

section \<open>The node's entry point\<close>


section \<open>The loops as partitions\<close>

text \<open>
  Both loops route each record by a test on the record and its index: to the valid
  output with its position attached, or as a diagnostic record to the invalid output.
  \<open>routed\<close> is that partition of the indexed batch; \<open>single_ok\<close>, \<open>single_diag\<close>,
  \<open>multi_ok\<close> and \<open>multi_diag\<close> are the test and the diagnostic record of each mode.
\<close>

definition routed ::
  "(nat \<Rightarrow> item \<Rightarrow> bool) \<Rightarrow> (nat \<Rightarrow> item \<Rightarrow> item) \<Rightarrow> nat \<Rightarrow> item list \<Rightarrow> item list \<times> item list" where
  "routed ok diag i items =
     (map (\<lambda>(j, it). it\<lparr>pairedItem := Some j\<rparr>) (filter (\<lambda>(j, it). ok j it) (enumerate i items)),
      map (\<lambda>(j, it). diag j it) (filter (\<lambda>(j, it). \<not> ok j it) (enumerate i items)))"

definition single_ok :: "JSON_parse \<Rightarrow> IExecuteFunctions \<Rightarrow> ValidateFunction \<Rightarrow> nat \<Rightarrow> item \<Rightarrow> bool" where
  "single_ok JSON_parse context v itemIndex it =
     (case single_try JSON_parse context v itemIndex it of Inr r \<Rightarrow> isValid r | Inl e \<Rightarrow> False)"

definition single_diag ::
  "JSON_parse \<Rightarrow> IExecuteFunctions \<Rightarrow> ValidateFunction \<Rightarrow> options \<Rightarrow> nat \<Rightarrow> item \<Rightarrow> item" where
  "single_diag JSON_parse context v opts itemIndex it =
     (case single_try JSON_parse context v itemIndex it of
        Inr r \<Rightarrow> single_invalid_item opts it itemIndex r
      | Inl e \<Rightarrow> single_caught_item opts it itemIndex e)"

definition multi_ok :: "string \<Rightarrow> compiledSchema list \<Rightarrow> nat \<Rightarrow> item \<Rightarrow> bool" where
  "multi_ok mode compiled itemIndex it = isItemValid mode (map (schema_result it) compiled)"

definition multi_diag :: "compiledSchema list \<Rightarrow> options \<Rightarrow> nat \<Rightarrow> item \<Rightarrow> item" where
  "multi_diag compiled opts itemIndex it =
     multi_invalid_item opts it itemIndex (map (schema_result it) compiled)"

section \<open>Example data\<close>

text \<open>
  A boolean schema: \<^verbatim>\<open>true\<close> accepts every value, \<^verbatim>\<open>false\<close> rejects every value with one
  diagnostic at the root.
\<close>

definition example_raw_error :: ErrorObject where
  "example_raw_error =
     \<lparr>instancePath = Some [], message = Some ''boolean schema is false'',
      keyword = ''false schema'', params = Some []\<rparr>"

definition failing_validator :: ValidateFunction where
  "failing_validator data = Inr (False, Some [example_raw_error])"

definition passing_validator :: ValidateFunction where
  "passing_validator data = Inr (True, None)"

definition example_parse :: JSON_parse where
  "example_parse s =
     (if s = ''true'' then Inr (JBool True)
      else if s = ''false'' then Inr (JBool False)
      else if s = ''{}'' then Inr (JObj [])
      else Inl (Error ''Unexpected token''))"

definition example_ajv :: Ajv where
  "example_ajv sch =
     (case sch of
        JBool b \<Rightarrow> Inr (if b then passing_validator else failing_validator)
      | _ \<Rightarrow> Inl (Error ''schema must be object or boolean''))"

definition example_items :: "item list" where
  "example_items =
     [\<lparr>json = JObj [(''id'', JNum 1)], binary = None, pairedItem = None\<rparr>,
      \<lparr>json = JObj [(''id'', JNum 2)], binary = Some [(''data'', ''file-2'')], pairedItem = None\<rparr>]"

definition example_options :: options where
  "example_options = \<lparr>includeErrorDetails = None, includeOriginalData = None\<rparr>"

text \<open>Single mode on the custom value: the first record's value does not decode.\<close>

definition example_single :: IExecuteFunctions where
  "example_single =
     \<lparr>validationMode = ''single'', jsonSchema = JStr ''true'', dataSource = ''customJson'',
      customJson = (\<lambda>i. Inr (if i = 0 then JStr ''{oops'' else JStr ''{}'')),
      schemaItems = None, matchMode = ''all''\<rparr>"

text \<open>Multiple mode: one schema that accepts and one that rejects every record.\<close>

definition example_schemas :: "schemaItem list" where
  "example_schemas =
     [\<lparr>schemaItem.schemaName = ''accept'', schema = JBool True, schemaItem.dataPath = None\<rparr>,
      \<lparr>schemaItem.schemaName = ''reject'', schema = JStr ''false'', schemaItem.dataPath = Some []\<rparr>]"

definition example_multi :: "string \<Rightarrow> IExecuteFunctions" where
  "example_multi mode =
     \<lparr>validationMode = ''multiple'', jsonSchema = JUndefined, dataSource = ''entireItem'',
      customJson = (\<lambda>i. Inr JUndefined),
      schemaItems = Some example_schemas, matchMode = mode\<rparr>"

definition example_compiled :: "compiledSchema list" where
  "example_compiled =
     [\<lparr>name = ''accept'', validator = passing_validator, dataPath = []\<rparr>,
      \<lparr>name = ''reject'', validator = failing_validator, dataPath = []\<rparr>]"

definition accept_result :: MultiSchemaValidationResult where
  "accept_result = \<lparr>isValid = True, errors = [], schemaName = ''accept''\<rparr>"

definition reject_result :: MultiSchemaValidationResult where
  "reject_result =
     \<lparr>isValid = False,
      errors = [\<lparr>field = ''/'', message = ''boolean schema is false'',
                 keyword = ''false schema'', params = []\<rparr>],
      schemaName = ''reject''\<rparr>"



definition example_single_empty :: IExecuteFunctions where
  "example_single_empty = example_single\<lparr>customJson := (\<lambda>i. Inr (JStr []))\<rparr>"

section \<open>Properties of path extraction\<close>
















section \<open>Validation results and error normalization\<close>

text \<open>
  Claim C6. When the validator returns on a data value, and reports at least one raw
  diagnostic whenever it returns false, \<^verbatim>\<open>validateData\<close> returns a result whose error
  list is empty iff \<^verbatim>\<open>isValid\<close> is true.
\<close>

theorem validateData_errors_empty_iff_valid:
  assumes "v d = Inr (ok, raw)"
    and "\<not> ok \<longrightarrow> raw \<noteq> None \<and> raw \<noteq> Some []"
  shows "\<exists>r. validateData v d = Inr r \<and> (errors r = [] \<longleftrightarrow> isValid r)"
  using assms
  by (cases raw) (auto simp: validateData_def transformValidationErrors_def)

theorem validateData_errors_empty_iff_valid_witness:
  "(\<exists>r. validateData failing_validator JNull = Inr r \<and> (errors r = [] \<longleftrightarrow> isValid r))
   \<and> (\<exists>r. validateData passing_validator JNull = Inr r \<and> (errors r = [] \<longleftrightarrow> isValid r))"
proof -
  have f: "failing_validator JNull = Inr (False, Some [example_raw_error])"
    by (simp add: failing_validator_def)
  have p: "passing_validator JNull = Inr (True, None)"
    by (simp add: passing_validator_def)
  show ?thesis
    using validateData_errors_empty_iff_valid [of failing_validator JNull False "Some [example_raw_error]"]
      validateData_errors_empty_iff_valid [of passing_validator JNull True None] f p
    by simp
qed

lemma normalize_root_pointer:
  "transformValidationErrors (Some [example_raw_error])
     = [\<lparr>field = ''/'', message = ''boolean schema is false'',
          keyword = ''false schema'', params = []\<rparr>]"
  by (simp add: transformValidationErrors_def example_raw_error_def str_or_def)

lemma str_or_cases:
  "str_or s d = (if s = None \<or> s = Some [] then d else the s)"
  by (cases s) (simp_all add: str_or_def)

text \<open>
  Claim C7. Each raw diagnostic maps to the field that is its instance pointer, or
  \<^verbatim>\<open>/\<close> when the pointer is absent; to the message that is its message, or
  \<^verbatim>\<open>Validation failed\<close> when the message is absent; to its keyword; and to its parameter
  mapping, or the empty mapping. Absent is what \<^verbatim>\<open>||\<close> tests: \<^verbatim>\<open>undefined\<close> or the empty
  string. The format of an error list is \<^verbatim>\<open>field: message\<close> per error, joined by a comma
  and a space; the empty list gives the empty string, and the two errors of the example
  give \<^verbatim>\<open>/name: must be string, /age: must be number\<close>.
\<close>

theorem normalize_and_format:
  "transformValidationErrors None = []
   \<and> transformValidationErrors (Some raws) =
       map (\<lambda>err.
              \<lparr>field = (if instancePath err = None \<or> instancePath err = Some [] then ''/''
                        else the (instancePath err)),
               message = (if ErrorObject.message err = None \<or> ErrorObject.message err = Some []
                          then ''Validation failed'' else the (ErrorObject.message err)),
               keyword = ErrorObject.keyword err,
               params = (case ErrorObject.params err of None \<Rightarrow> [] | Some p \<Rightarrow> p)\<rparr>) raws
   \<and> formatValidationErrorMessage [] = []
   \<and> formatValidationErrorMessage [e] = field e @ '': '' @ message e
   \<and> formatValidationErrorMessage (e # e' # es) =
       field e @ '': '' @ message e @ '', '' @ formatValidationErrorMessage (e' # es)
   \<and> formatValidationErrorMessage
        [\<lparr>field = ''/name'', message = ''must be string'', keyword = k1, params = p1\<rparr>,
         \<lparr>field = ''/age'', message = ''must be number'', keyword = k2, params = p2\<rparr>]
       = ''/name: must be string, /age: must be number''"
  by (simp add: transformValidationErrors_def formatValidationErrorMessage_def str_or_cases)

section \<open>Properties of the loops\<close>

lemma routed_Nil: "routed ok diag i [] = ([], [])"
  by (simp add: routed_def)

lemma routed_Cons:
  "routed ok diag i (it # rest) =
     (if ok i it
      then (it\<lparr>pairedItem := Some i\<rparr> # fst (routed ok diag (Suc i) rest), snd (routed ok diag (Suc i) rest))
      else (fst (routed ok diag (Suc i) rest), diag i it # snd (routed ok diag (Suc i) rest)))"
  by (simp add: routed_def)


lemma routed_valid_iff:
  "out \<in> set (fst (routed ok diag i items)) \<longleftrightarrow>
     (\<exists>k < length items. ok (i + k) (items ! k) \<and> out = (items ! k)\<lparr>pairedItem := Some (i + k)\<rparr>)"
proof (induction items arbitrary: i)
  case Nil
  then show ?case by (simp add: routed_Nil)
next
  case (Cons it rest)
  have ex: "(\<exists>k < length (it # rest). Q k) \<longleftrightarrow> Q 0 \<or> (\<exists>k < length rest. Q (Suc k))" for Q
    by (auto simp: less_Suc_eq_0_disj)
  show ?case
    by (subst ex) (auto simp: routed_Cons Cons.IH)
qed

lemma routed_invalid_iff:
  "out \<in> set (snd (routed ok diag i items)) \<longleftrightarrow>
     (\<exists>k < length items. \<not> ok (i + k) (items ! k) \<and> out = diag (i + k) (items ! k))"
proof (induction items arbitrary: i)
  case Nil
  then show ?case by (simp add: routed_Nil)
next
  case (Cons it rest)
  have ex: "(\<exists>k < length (it # rest). Q k) \<longleftrightarrow> Q 0 \<or> (\<exists>k < length rest. Q (Suc k))" for Q
    by (auto simp: less_Suc_eq_0_disj)
  show ?case
    by (subst ex) (auto simp: routed_Cons Cons.IH)
qed

lemma item_position_eq:
  "(a :: item)\<lparr>pairedItem := Some i\<rparr> = b\<lparr>pairedItem := Some k\<rparr> \<Longrightarrow> i = k"
  by (metis item.select_convs(3) item.surjective item.update_convs(3) option.inject)

lemma routed_valid_at:
  assumes "i < length items"
  shows "(items ! i)\<lparr>pairedItem := Some i\<rparr> \<in> set (fst (routed ok diag 0 items)) \<longleftrightarrow> ok i (items ! i)"
proof
  assume "(items ! i)\<lparr>pairedItem := Some i\<rparr> \<in> set (fst (routed ok diag 0 items))"
  then obtain k where k: "k < length items" "ok k (items ! k)"
    "(items ! i)\<lparr>pairedItem := Some i\<rparr> = (items ! k)\<lparr>pairedItem := Some k\<rparr>"
    by (auto simp: routed_valid_iff)
  then have "i = k" using item_position_eq by blast
  then show "ok i (items ! i)" using k by simp
next
  assume "ok i (items ! i)"
  then show "(items ! i)\<lparr>pairedItem := Some i\<rparr> \<in> set (fst (routed ok diag 0 items))"
    using assms by (auto simp: routed_valid_iff)
qed

lemma routed_invalid_at:
  assumes "i < length items" and "\<And>j it. pairedItem (diag j it) = Some j"
  shows "diag i (items ! i) \<in> set (snd (routed ok diag 0 items)) \<longleftrightarrow> \<not> ok i (items ! i)"
proof
  assume "diag i (items ! i) \<in> set (snd (routed ok diag 0 items))"
  then obtain k where k: "k < length items" "\<not> ok k (items ! k)"
    "diag i (items ! i) = diag k (items ! k)"
    by (auto simp: routed_invalid_iff)
  then have "i = k" using assms(2) by (metis option.inject)
  then show "\<not> ok i (items ! i)" using k by simp
next
  assume "\<not> ok i (items ! i)"
  then show "diag i (items ! i) \<in> set (snd (routed ok diag 0 items))"
    using assms by (auto simp: routed_invalid_iff)
qed







lemma routed_others_unaffected:
  assumes "\<And>j it. j \<noteq> i \<Longrightarrow> ok' j it = ok j it \<and> diag' j it = diag j it"
    and "\<And>j it. pairedItem (diag j it) = Some j"
    and "\<And>j it. pairedItem (diag' j it) = Some j"
  shows "filter (\<lambda>out. pairedItem out \<noteq> Some i) (fst (routed ok' diag' n items))
           = filter (\<lambda>out. pairedItem out \<noteq> Some i) (fst (routed ok diag n items))
       \<and> filter (\<lambda>out. pairedItem out \<noteq> Some i) (snd (routed ok' diag' n items))
           = filter (\<lambda>out. pairedItem out \<noteq> Some i) (snd (routed ok diag n items))"
proof (induction items arbitrary: n)
  case Nil
  then show ?case by (simp add: routed_Nil)
next
  case (Cons it rest)
  show ?case
  proof (cases "n = i")
    case True
    then show ?thesis
      using Cons.IH [of "Suc n"] assms(2,3) by (simp add: routed_Cons)
  next
    case False
    then show ?thesis
      using Cons.IH [of "Suc n"] assms by (simp add: routed_Cons)
  qed
qed

lemma single_iteration_eq:
  "single_iteration JSON_parse context v opts j it (va, iv) =
     (if single_ok JSON_parse context v j it
      then (va @ [it\<lparr>pairedItem := Some j\<rparr>], iv)
      else (va, iv @ [single_diag JSON_parse context v opts j it]))"
  by (simp add: single_iteration_def single_ok_def single_diag_def split: sum.splits)

lemma single_loop_routed:
  "single_loop JSON_parse context v opts i items (va, iv) =
     (va @ fst (routed (single_ok JSON_parse context v) (single_diag JSON_parse context v opts) i items),
      iv @ snd (routed (single_ok JSON_parse context v) (single_diag JSON_parse context v opts) i items))"
  by (induction items arbitrary: i va iv) (simp_all add: routed_Nil routed_Cons single_iteration_eq)

lemma schema_loop_map:
  "schema_loop it compiled acc = acc @ map (schema_result it) compiled"
  by (induction compiled arbitrary: acc) simp_all


lemma multi_iteration_eq:
  "multi_iteration mode compiled opts j it (va, iv) =
     (if multi_ok mode compiled j it
      then (va @ [it\<lparr>pairedItem := Some j\<rparr>], iv)
      else (va, iv @ [multi_diag compiled opts j it]))"
  by (simp add: multi_iteration_def multi_ok_def multi_diag_def schema_loop_map)

lemma multi_loop_routed:
  "multi_loop mode compiled opts i items (va, iv) =
     (va @ fst (routed (multi_ok mode compiled) (multi_diag compiled opts) i items),
      iv @ snd (routed (multi_ok mode compiled) (multi_diag compiled opts) i items))"
  by (induction items arbitrary: i va iv) (simp_all add: routed_Nil routed_Cons multi_iteration_eq)

lemma single_diag_pairedItem: "pairedItem (single_diag JSON_parse context v opts j it) = Some j"
  by (simp add: single_diag_def single_invalid_item_def single_caught_item_def Let_def split: sum.splits)

lemma multi_diag_pairedItem: "pairedItem (multi_diag compiled opts j it) = Some j"
  by (simp add: multi_diag_def multi_invalid_item_def)

section \<open>The up-front checks and the shape of a run\<close>


lemma single_schema_check_ok:
  assumes "parseSchema JSON_parse (jsonSchema context) = Inr sch"
    and "JsonSchemaCheck.isValid (isValidJsonSchema sch ajv)"
  shows "single_schema_check JSON_parse context ajv = Inr sch"
  using assms by (simp add: single_schema_check_def)

lemma executeSingleSchemaMode_ok:
  assumes "parseSchema JSON_parse (jsonSchema context) = Inr sch"
    and "ajv sch = Inr v"
  shows "executeSingleSchemaMode JSON_parse context items [] [] ajv opts =
           Inr (routed (single_ok JSON_parse context v) (single_diag JSON_parse context v opts) 0 items)"
  using assms
  by (simp add: executeSingleSchemaMode_def single_schema_check_def isValidJsonSchema_def
      createValidator_def single_loop_routed)




lemma executeMultipleSchemaMode_Inr:
  assumes "executeMultipleSchemaMode JSON_parse context items [] [] ajv opts = Inr out"
  shows "\<exists>schemas compiled. schemaItems context = Some schemas \<and> schemas \<noteq> []
           \<and> compileSchemas JSON_parse ajv 0 schemas = Inr compiled
           \<and> out = routed (multi_ok (matchMode context) compiled) (multi_diag compiled opts) 0 items"
  using assms
  by (auto simp: executeMultipleSchemaMode_def Let_def multi_loop_routed
      split: option.splits sum.splits if_splits)


section \<open>Diagnostic records\<close>

lemma map_of_set_prop_same: "map_of (set_prop kvs k v) k = Some v"
  by (induction kvs) auto

lemma map_of_set_prop_other: "k' \<noteq> k \<Longrightarrow> map_of (set_prop kvs k v) k' = map_of kvs k'"
  by (induction kvs) auto

lemma js_get_set_prop_same: "js_get (JObj (set_prop kvs k v)) (Key k) = Inr v"
  by (simp add: map_of_set_prop_same)

lemma js_get_set_prop_other:
  "k' \<noteq> k \<Longrightarrow> js_get (JObj (set_prop kvs k v)) (Key k') = js_get (JObj kvs) (Key k')"
  by (simp add: map_of_set_prop_other)

lemma caught_validationErrors:
  "js_get (json (single_caught_item opts it i err)) (Key ''validationErrors'')
     = Inr (JArr [JObj [(''field'', JStr ''/''), (''message'', JStr (error_message err)),
                        (''keyword'', JStr ''parse''), (''params'', JObj [])]])"
  by (simp add: single_caught_item_def Let_def json_of_error_def
      map_of_set_prop_same map_of_set_prop_other)

lemma caught_validationMessage:
  "js_get (json (single_caught_item opts it i err)) (Key ''validationMessage'')
     = Inr (JStr (error_message err))"
  by (simp add: single_caught_item_def Let_def map_of_set_prop_same)

section \<open>Runs on the example data\<close>

lemmas ex_defs = example_parse_def example_ajv_def example_items_def example_options_def
  example_single_def example_schemas_def example_multi_def example_compiled_def
  accept_result_def reject_result_def passing_validator_def failing_validator_def
  example_raw_error_def

lemma example_compileSchemas: "compileSchemas example_parse example_ajv 0 example_schemas = Inr example_compiled"
  by (simp add: ex_defs compileSchema_def parseSchema_def isValidJsonSchema_def createValidator_def
      schema_label_def str_or_def)

lemma example_schema_loop_0: "schema_loop (example_items ! 0) example_compiled [] = [accept_result, reject_result]"
  by (simp add: ex_defs schema_result_def schema_try_def validateData_def
     transformValidationErrors_def str_or_def)

lemma example_multi_all_loop:
  "multi_loop ''all'' example_compiled example_options 0 example_items ([], [])
   = ([], [multi_invalid_item example_options (example_items ! 0) 0 [accept_result, reject_result],
           multi_invalid_item example_options (example_items ! 1) 1 [accept_result, reject_result]])"
  by (simp add: multi_iteration_def isItemValid_def ex_defs schema_result_def schema_try_def
      validateData_def transformValidationErrors_def str_or_def)

lemma example_multi_all_run:
  "executeMultipleSchemaMode example_parse (example_multi ''all'') example_items [] [] example_ajv
     example_options
   = Inr ([], [multi_invalid_item example_options (example_items ! 0) 0 [accept_result, reject_result],
               multi_invalid_item example_options (example_items ! 1) 1 [accept_result, reject_result]])"
  using example_compileSchemas example_multi_all_loop
  by (simp add: executeMultipleSchemaMode_def example_multi_def example_schemas_def)

lemma example_multi_any_run:
  "executeMultipleSchemaMode example_parse (example_multi ''any'') example_items [] [] example_ajv
     example_options
   = Inr ([(example_items ! 0)\<lparr>pairedItem := Some 0\<rparr>, (example_items ! 1)\<lparr>pairedItem := Some 1\<rparr>], [])"
  by code_simp

lemma example_compile:
  "compileSchemas example_parse example_ajv 0
     (case schemaItems (example_multi mode) of None \<Rightarrow> [] | Some xs \<Rightarrow> xs) = Inr example_compiled"
  using example_compileSchemas by (simp add: example_multi_def)

lemma example_schema_loop:
  "schema_loop (example_items ! 0) example_compiled [] = [accept_result, reject_result]"
  by code_simp


lemma example_single_facts:
  "dataSource example_single = ''customJson''"
  "parseSchema example_parse (jsonSchema example_single) = Inr (JBool True)"
  "example_ajv (JBool True) = Inr passing_validator"
  "0 < length example_items"
  "customJson example_single 0 = Inr (JStr ''{oops'')"
  "example_parse ''{oops'' = Inl (Error ''Unexpected token'')"
  "validationMode example_single = ''single''"
  by (simp_all add: example_single_def parseSchema_def example_parse_def example_ajv_def
      example_items_def)

lemma example_single_run:
  "executeSingleSchemaMode example_parse example_single example_items [] [] example_ajv example_options
   = Inr ([(example_items ! 1)\<lparr>pairedItem := Some 1\<rparr>],
          [single_caught_item example_options (example_items ! 0) 0
             (Error ''Invalid custom JSON: Unexpected token'')])"
  by code_simp


section \<open>Multiple schemas mode: match mode, diagnostics, data path\<close>

text \<open>
  Claim C1. In multiple schemas mode, for every record of the batch and the non-empty list
  of compiled schemas, with one result per schema: under match mode \<^verbatim>\<open>all\<close> the record
  is on the valid output iff every per-schema result is valid, and under match mode
  \<^verbatim>\<open>any\<close> iff at least one per-schema result is valid.
\<close>

theorem multi_match_mode:
  assumes "executeMultipleSchemaMode JSON_parse context items [] [] ajv opts = Inr (valid, invalid)"
    and "compileSchemas JSON_parse ajv 0 (case schemaItems context of None \<Rightarrow> [] | Some xs \<Rightarrow> xs)
           = Inr compiled"
    and "i < length items"
  shows "compiled \<noteq> []
    \<and> length (schema_loop (items ! i) compiled []) = length compiled
    \<and> (matchMode context = ''all'' \<longrightarrow>
         ((items ! i)\<lparr>pairedItem := Some i\<rparr> \<in> set valid
            \<longleftrightarrow> (\<forall>r \<in> set (schema_loop (items ! i) compiled []). isValid r)))
    \<and> (matchMode context = ''any'' \<longrightarrow>
         ((items ! i)\<lparr>pairedItem := Some i\<rparr> \<in> set valid
            \<longleftrightarrow> (\<exists>r \<in> set (schema_loop (items ! i) compiled []). isValid r)))"
proof -
  obtain schemas compiled' where s: "schemaItems context = Some schemas" "schemas \<noteq> []"
    "compileSchemas JSON_parse ajv 0 schemas = Inr compiled'"
    and out: "(valid, invalid) =
       routed (multi_ok (matchMode context) compiled') (multi_diag compiled' opts) 0 items"
    using executeMultipleSchemaMode_Inr [OF assms(1)] by blast
  have c: "compiled' = compiled"
    using s assms(2) by simp
  have ne: "compiled \<noteq> []"
    using s assms(2) by (cases schemas) (auto split: sum.splits)
  have v: "valid = fst (routed (multi_ok (matchMode context) compiled) (multi_diag compiled opts) 0 items)"
    using out [symmetric] c by simp
  have m: "(items ! i)\<lparr>pairedItem := Some i\<rparr> \<in> set valid
       \<longleftrightarrow> isItemValid (matchMode context) (schema_loop (items ! i) compiled [])"
    using routed_valid_at [OF assms(3)] by (simp add: v multi_ok_def schema_loop_map)
  show ?thesis
    using ne m by (simp add: isItemValid_def list_all_iff list_ex_iff schema_loop_map)
qed

theorem multi_match_mode_witness:
  "executeMultipleSchemaMode example_parse (example_multi ''all'') example_items [] [] example_ajv
     example_options
     = Inr ([], [multi_invalid_item example_options (example_items ! 0) 0 [accept_result, reject_result],
                 multi_invalid_item example_options (example_items ! 1) 1 [accept_result, reject_result]])
   \<and> ((example_items ! 0)\<lparr>pairedItem := Some 0\<rparr> \<in> set ([] :: item list)
        \<longleftrightarrow> (\<forall>r \<in> set (schema_loop (example_items ! 0) example_compiled []). isValid r))
   \<and> executeMultipleSchemaMode example_parse (example_multi ''any'') example_items [] [] example_ajv
       example_options
     = Inr ([(example_items ! 0)\<lparr>pairedItem := Some 0\<rparr>, (example_items ! 1)\<lparr>pairedItem := Some 1\<rparr>], [])
   \<and> ((example_items ! 0)\<lparr>pairedItem := Some 0\<rparr>
          \<in> set [(example_items ! 0)\<lparr>pairedItem := Some 0\<rparr>, (example_items ! 1)\<lparr>pairedItem := Some 1\<rparr>]
        \<longleftrightarrow> (\<exists>r \<in> set (schema_loop (example_items ! 0) example_compiled []). isValid r))
   \<and> schema_loop (example_items ! 0) example_compiled [] = [accept_result, reject_result]
   \<and> isValid accept_result \<and> \<not> isValid reject_result"
proof -
  have i: "0 < length example_items"
    by (simp add: example_items_def)
  have a: "(example_items ! 0)\<lparr>pairedItem := Some 0\<rparr> \<in> set ([] :: item list)
          \<longleftrightarrow> (\<forall>r \<in> set (schema_loop (example_items ! 0) example_compiled []). isValid r)"
    using multi_match_mode [OF example_multi_all_run example_compile i]
    by (simp add: example_multi_def)
  have b: "(example_items ! 0)\<lparr>pairedItem := Some 0\<rparr>
        \<in> set [(example_items ! 0)\<lparr>pairedItem := Some 0\<rparr>, (example_items ! 1)\<lparr>pairedItem := Some 1\<rparr>]
          \<longleftrightarrow> (\<exists>r \<in> set (schema_loop (example_items ! 0) example_compiled []). isValid r)"
    using multi_match_mode [OF example_multi_any_run example_compile i]
    by (simp add: example_multi_def)
  have c: "isValid accept_result \<and> \<not> isValid reject_result"
    by (simp add: accept_result_def reject_result_def)
  show ?thesis
    using a b c example_multi_all_run example_multi_any_run example_schema_loop
    by blast
qed

text \<open>
  Under match mode \<^verbatim>\<open>all\<close>, with one accepting and one rejecting schema, the record is
  routed to the invalid output and its \<^verbatim>\<open>validationResults\<close> payload holds the result of
  the accepting schema too: the payload is not the list of the failing results.
\<close>

theorem multi_invalid_payload_lists_passing_result:
  "executeMultipleSchemaMode example_parse (example_multi ''all'') example_items [] [] example_ajv
     example_options
   = Inr ([], [multi_invalid_item example_options (example_items ! 0) 0 [accept_result, reject_result],
               multi_invalid_item example_options (example_items ! 1) 1 [accept_result, reject_result]])
   \<and> schema_loop (example_items ! 0) example_compiled [] = [accept_result, reject_result]
   \<and> isValid accept_result \<and> \<not> isValid reject_result
   \<and> js_get (json (multi_invalid_item example_options (example_items ! 0) 0 [accept_result, reject_result]))
        (Key ''validationResults'')
      = Inr (JArr [json_of_result accept_result, json_of_result reject_result])
   \<and> JArr [json_of_result accept_result, json_of_result reject_result]
      \<noteq> JArr [json_of_result reject_result]"
proof -
  have "js_get (json (multi_invalid_item example_options (example_items ! 0) 0 [accept_result, reject_result]))
        (Key ''validationResults'')
      = Inr (JArr [json_of_result accept_result, json_of_result reject_result])"
    by (simp add: multi_invalid_item_def example_options_def original_fields_def)
  then show ?thesis
    using example_multi_all_run example_schema_loop
    by (simp add: accept_result_def reject_result_def)
qed

text \<open>
  Claim C2, as amended. In multiple schemas mode, every item of the invalid output is the
  diagnostic record of one input record that is not on the valid output; its
  \<^verbatim>\<open>validationMessage\<close> is the failing results (\<^verbatim>\<open>isValid\<close> false) formatted as
  \<^verbatim>\<open>[schemaName] formatted errors\<close> and joined by \<^verbatim>\<open>; \<close>, and its
  \<^verbatim>\<open>validationResults\<close> payload lists all per-schema results of the record in configured
  order, passing and failing alike, unless \<^verbatim>\<open>includeErrorDetails\<close> is false, when it is
  \<^verbatim>\<open>undefined\<close>.
\<close>

theorem multi_invalid_payload:
  assumes "executeMultipleSchemaMode JSON_parse context items [] [] ajv opts = Inr (valid, invalid)"
    and "compileSchemas JSON_parse ajv 0 (case schemaItems context of None \<Rightarrow> [] | Some xs \<Rightarrow> xs)
           = Inr compiled"
    and "out \<in> set invalid"
  shows "\<exists>i < length items.
      pairedItem out = Some i
    \<and> (items ! i)\<lparr>pairedItem := Some i\<rparr> \<notin> set valid
    \<and> js_get (json out) (Key ''validationMessage'')
        = Inr (JStr (join ''; ''
                 (map (\<lambda>r. ''['' @ schemaName r @ ''] '' @ formatValidationErrorMessage (errors r))
                      (filter (\<lambda>r. \<not> isValid r) (schema_loop (items ! i) compiled [])))))
    \<and> js_get (json out) (Key ''validationResults'')
        = Inr (if includeErrorDetails opts \<noteq> Some False
               then JArr (map json_of_result (schema_loop (items ! i) compiled []))
               else JUndefined)"
proof -
  obtain schemas compiled' where s: "schemaItems context = Some schemas"
    "compileSchemas JSON_parse ajv 0 schemas = Inr compiled'"
    and r: "(valid, invalid) =
       routed (multi_ok (matchMode context) compiled') (multi_diag compiled' opts) 0 items"
    using executeMultipleSchemaMode_Inr [OF assms(1)] by blast
  have c: "compiled' = compiled"
    using s assms(2) by simp
  let ?ok = "multi_ok (matchMode context) compiled" and ?diag = "multi_diag compiled opts"
  have v: "valid = fst (routed ?ok ?diag 0 items)" and iv: "invalid = snd (routed ?ok ?diag 0 items)"
    using r [symmetric] c by simp_all
  obtain k where k: "k < length items" "\<not> ?ok k (items ! k)" "out = ?diag k (items ! k)"
    using assms(3) by (auto simp: iv routed_invalid_iff)
  have nv: "(items ! k)\<lparr>pairedItem := Some k\<rparr> \<notin> set valid"
    using routed_valid_at [OF k(1), of ?ok ?diag] k(2) by (simp add: v)
  have msg: "js_get (json out) (Key ''validationMessage'')
        = Inr (JStr (multi_error_messages (schema_loop (items ! k) compiled [])))"
    by (simp add: k(3) multi_diag_def multi_invalid_item_def schema_loop_map map_of_set_prop_same)
  have res: "js_get (json out) (Key ''validationResults'')
        = Inr (if includeErrorDetails opts \<noteq> Some False
               then JArr (map json_of_result (schema_loop (items ! k) compiled []))
               else JUndefined)"
    by (simp add: k(3) multi_diag_def multi_invalid_item_def schema_loop_map
        map_of_set_prop_same map_of_set_prop_other)
  have "pairedItem out = Some k"
    by (simp add: k(3) multi_diag_pairedItem)
  then show ?thesis
    using k(1) nv msg res by (auto simp: multi_error_messages_def)
qed

theorem multi_invalid_payload_witness:
  "js_get (json (multi_invalid_item example_options (example_items ! 0) 0 [accept_result, reject_result]))
        (Key ''validationMessage'')
     = Inr (JStr ''[reject] /: boolean schema is false'')
   \<and> js_get (json (multi_invalid_item example_options (example_items ! 0) 0 [accept_result, reject_result]))
        (Key ''validationResults'')
     = Inr (JArr [json_of_result accept_result, json_of_result reject_result])"
proof -
  let ?out = "multi_invalid_item example_options (example_items ! 0) 0 [accept_result, reject_result]"
  let ?out1 = "multi_invalid_item example_options (example_items ! 1) 1 [accept_result, reject_result]"
  have m: "?out \<in> set [?out, ?out1]"
    by simp
  have p: "pairedItem ?out = Some 0"
    by (simp add: multi_invalid_item_def)
  obtain i where i: "pairedItem ?out = Some i"
    "js_get (json ?out) (Key ''validationMessage'')
        = Inr (JStr (join ''; ''
                 (map (\<lambda>r. ''['' @ schemaName r @ ''] '' @ formatValidationErrorMessage (errors r))
                      (filter (\<lambda>r. \<not> isValid r) (schema_loop (example_items ! i) example_compiled [])))))"
    "js_get (json ?out) (Key ''validationResults'')
        = Inr (if includeErrorDetails example_options \<noteq> Some False
               then JArr (map json_of_result (schema_loop (example_items ! i) example_compiled []))
               else JUndefined)"
    using multi_invalid_payload [OF example_multi_all_run example_compile m] by blast
  have "i = 0" using i(1) p by simp
  then show ?thesis
    using i(2,3)
    by (simp add: example_schema_loop)
      (simp add: accept_result_def reject_result_def example_options_def
        formatValidationErrorMessage_def)
qed





section \<open>Single schema mode: the custom value\<close>

lemma single_try_falsy:
  assumes "dataSource context = ''customJson''" and "customJson context i = Inr cv"
    and "\<not> truthy cv"
  shows \<open>single_try JSON_parse context v i it
           = Inl (Error ''Custom JSON is required when Data Source is "Custom JSON"'')\<close>
  using assms by (simp add: single_try_def extractDataToValidate_def)

lemma single_try_parse_failure:
  assumes "dataSource context = ''customJson''" and "customJson context i = Inr (JStr s)"
    and "s \<noteq> []" and "JSON_parse s = Inl e"
  shows "single_try JSON_parse context v i it
           = Inl (Error (''Invalid custom JSON: '' @ error_message e))"
  using assms by (simp add: single_try_def extractDataToValidate_def extractCustomJsonData_def)

lemma single_try_customJson_update:
  assumes "c' j = customJson context j"
  shows "single_try JSON_parse (context\<lparr>customJson := c'\<rparr>) v j it
           = single_try JSON_parse context v j it"
  using assms by (simp add: single_try_def split: sum.splits)

lemma routed_single_caught:
  assumes "i < length items" and "single_try JSON_parse context v i (items ! i) = Inl err"
  shows "single_caught_item opts (items ! i) i err
           \<in> set (snd (routed (single_ok JSON_parse context v) (single_diag JSON_parse context v opts) 0 items))"
    and "(items ! i)\<lparr>pairedItem := Some i\<rparr>
           \<notin> set (fst (routed (single_ok JSON_parse context v) (single_diag JSON_parse context v opts) 0 items))"
proof -
  let ?ok = "single_ok JSON_parse context v" and ?diag = "single_diag JSON_parse context v opts"
  have n: "\<not> ?ok i (items ! i)" and d: "?diag i (items ! i) = single_caught_item opts (items ! i) i err"
    using assms(2) by (simp_all add: single_ok_def single_diag_def)
  show "single_caught_item opts (items ! i) i err \<in> set (snd (routed ?ok ?diag 0 items))"
    using routed_invalid_at [OF assms(1), of ?diag ?ok] n d single_diag_pairedItem by simp
  show "(items ! i)\<lparr>pairedItem := Some i\<rparr> \<notin> set (fst (routed ?ok ?diag 0 items))"
    using routed_valid_at [OF assms(1), of ?ok ?diag] n by simp
qed

text \<open>
  Claim C5. In single schema mode on the custom value, when the custom value of a record
  is a string that fails to decode, the run still returns; that record is on the invalid
  output and not on the valid one, and carries an error list of one element, with
  keyword \<^verbatim>\<open>parse\<close>; and the other records are unaffected: whatever the custom value of
  that record is, the run returns and the output items of all other positions are the same.
\<close>

theorem single_custom_parse_failure:
  assumes "dataSource context = ''customJson''"
    and "parseSchema JSON_parse (jsonSchema context) = Inr sch" and "ajv sch = Inr v"
    and "i < length items"
    and "customJson context i = Inr (JStr s)" and "JSON_parse s = Inl e"
  shows \<open>\<exists>valid invalid out m.
      executeSingleSchemaMode JSON_parse context items [] [] ajv opts = Inr (valid, invalid)
    \<and> out \<in> set invalid \<and> pairedItem out = Some i
    \<and> (items ! i)\<lparr>pairedItem := Some i\<rparr> \<notin> set valid
    \<and> m = (if s = [] then ''Custom JSON is required when Data Source is "Custom JSON"''
           else ''Invalid custom JSON: '' @ error_message e)
    \<and> js_get (json out) (Key ''validationErrors'')
        = Inr (JArr [JObj [(''field'', JStr ''/''), (''message'', JStr m),
                           (''keyword'', JStr ''parse''), (''params'', JObj [])]])
    \<and> js_get (json out) (Key ''validationMessage'') = Inr (JStr m)
    \<and> (\<forall>c'. (\<forall>j. j \<noteq> i \<longrightarrow> c' j = customJson context j) \<longrightarrow>
          (\<exists>valid' invalid'.
              executeSingleSchemaMode JSON_parse (context\<lparr>customJson := c'\<rparr>) items [] [] ajv opts
                = Inr (valid', invalid')
            \<and> filter (\<lambda>x. pairedItem x \<noteq> Some i) valid' = filter (\<lambda>x. pairedItem x \<noteq> Some i) valid
            \<and> filter (\<lambda>x. pairedItem x \<noteq> Some i) invalid'
                = filter (\<lambda>x. pairedItem x \<noteq> Some i) invalid))\<close>
proof -
  let ?ok = "single_ok JSON_parse context v" and ?diag = "single_diag JSON_parse context v opts"
  let ?m = \<open>if s = [] then ''Custom JSON is required when Data Source is "Custom JSON"''
           else ''Invalid custom JSON: '' @ error_message e\<close>
  let ?out = "single_caught_item opts (items ! i) i (Error ?m)"
  have run: "executeSingleSchemaMode JSON_parse context items [] [] ajv opts
               = Inr (fst (routed ?ok ?diag 0 items), snd (routed ?ok ?diag 0 items))"
    using executeSingleSchemaMode_ok [of JSON_parse "context" sch ajv v items opts] assms(2,3)
    by simp
  have t: "single_try JSON_parse context v i (items ! i) = Inl (Error ?m)"
  proof (cases "s = []")
    case True
    then show ?thesis
      using single_try_falsy [of "context" i "JStr s" JSON_parse v "items ! i"] assms(1,5) by simp
  next
    case False
    then show ?thesis
      using single_try_parse_failure [of "context" i s JSON_parse e v "items ! i"] assms(1,5,6)
      by simp
  qed
  have inv: "?out \<in> set (snd (routed ?ok ?diag 0 items))"
    and nv: "(items ! i)\<lparr>pairedItem := Some i\<rparr> \<notin> set (fst (routed ?ok ?diag 0 items))"
    using routed_single_caught [OF assms(4) t] by simp_all
  have p: "pairedItem ?out = Some i"
    by (simp add: single_caught_item_def Let_def)
  have others: "\<exists>valid' invalid'.
              executeSingleSchemaMode JSON_parse (context\<lparr>customJson := c'\<rparr>) items [] [] ajv opts
                = Inr (valid', invalid')
            \<and> filter (\<lambda>x. pairedItem x \<noteq> Some i) valid'
                = filter (\<lambda>x. pairedItem x \<noteq> Some i) (fst (routed ?ok ?diag 0 items))
            \<and> filter (\<lambda>x. pairedItem x \<noteq> Some i) invalid'
                = filter (\<lambda>x. pairedItem x \<noteq> Some i) (snd (routed ?ok ?diag 0 items))"
    if c: "\<forall>j. j \<noteq> i \<longrightarrow> c' j = customJson context j" for c'
  proof -
    let ?c = "context\<lparr>customJson := c'\<rparr>"
    let ?ok' = "single_ok JSON_parse ?c v" and ?diag' = "single_diag JSON_parse ?c v opts"
    have run': "executeSingleSchemaMode JSON_parse ?c items [] [] ajv opts
               = Inr (fst (routed ?ok' ?diag' 0 items), snd (routed ?ok' ?diag' 0 items))"
      using executeSingleSchemaMode_ok [of JSON_parse ?c sch ajv v items opts] assms(2,3) by simp
    have same: "?ok' j it = ?ok j it \<and> ?diag' j it = ?diag j it" if "j \<noteq> i" for j it
      using that c single_try_customJson_update [of c' j "context" JSON_parse v it]
      by (simp add: single_ok_def single_diag_def)
    have f: "filter (\<lambda>x. pairedItem x \<noteq> Some i) (fst (routed ?ok' ?diag' 0 items))
                = filter (\<lambda>x. pairedItem x \<noteq> Some i) (fst (routed ?ok ?diag 0 items))
            \<and> filter (\<lambda>x. pairedItem x \<noteq> Some i) (snd (routed ?ok' ?diag' 0 items))
                = filter (\<lambda>x. pairedItem x \<noteq> Some i) (snd (routed ?ok ?diag 0 items))"
      using routed_others_unaffected [of i ?ok' ?ok ?diag' ?diag 0 items, OF same]
        single_diag_pairedItem
      by simp
    show ?thesis
      using run' f by blast
  qed
  have ve: "js_get (json ?out) (Key ''validationErrors'')
        = Inr (JArr [JObj [(''field'', JStr ''/''), (''message'', JStr ?m),
                           (''keyword'', JStr ''parse''), (''params'', JObj [])]])"
    using caught_validationErrors [of opts "items ! i" i "Error ?m"] by simp
  have vm: "js_get (json ?out) (Key ''validationMessage'') = Inr (JStr ?m)"
    using caught_validationMessage [of opts "items ! i" i "Error ?m"] by simp
  show ?thesis
    using run inv nv p ve vm others by blast
qed

theorem single_custom_parse_failure_witness:
  "\<exists>out. out \<in> set [single_caught_item example_options (example_items ! 0) 0
                        (Error ''Invalid custom JSON: Unexpected token'')]
     \<and> pairedItem out = Some 0
     \<and> js_get (json out) (Key ''validationErrors'')
        = Inr (JArr [JObj [(''field'', JStr ''/''),
                           (''message'', JStr ''Invalid custom JSON: Unexpected token''),
                           (''keyword'', JStr ''parse''), (''params'', JObj [])]])"
proof -
  obtain valid invalid out m where
    "executeSingleSchemaMode example_parse example_single example_items [] [] example_ajv example_options
       = Inr (valid, invalid)"
    "out \<in> set invalid" "pairedItem out = Some 0"
    "m = ''Invalid custom JSON: Unexpected token''"
    "js_get (json out) (Key ''validationErrors'')
        = Inr (JArr [JObj [(''field'', JStr ''/''), (''message'', JStr m),
                           (''keyword'', JStr ''parse''), (''params'', JObj [])]])"
    using single_custom_parse_failure [of example_single example_parse "JBool True" example_ajv
        passing_validator 0 example_items "''{oops''" "Error ''Unexpected token''" example_options]
      example_single_facts
    by auto
  then show ?thesis
    using example_single_run by auto
qed

text \<open>
  Claim C10. On the custom value data source a falsy custom value, the empty string among
  them, makes \<^verbatim>\<open>extractDataToValidate\<close> raise the missing-value error, whatever the decoder
  would do with it; in single mode the error is caught for that record, which is routed to
  the invalid output with one error of keyword \<^verbatim>\<open>parse\<close> carrying that message. The
  diagnostic record does not depend on which falsy value was supplied, so an empty custom
  value gives the same output as an absent one.
\<close>

theorem empty_custom_value_is_missing:
  \<open>\<not> truthy (JStr []) \<and> \<not> truthy JUndefined
   \<and> (\<not> truthy cv \<longrightarrow>
        extractDataToValidate JSON_parse it ''customJson'' cv
          = Inl (Error ''Custom JSON is required when Data Source is "Custom JSON"''))
   \<and> (dataSource context = ''customJson''
        \<and> parseSchema JSON_parse (jsonSchema context) = Inr sch \<and> ajv sch = Inr v
        \<and> i < length items \<and> customJson context i = Inr cv \<and> \<not> truthy cv \<longrightarrow>
        (\<exists>valid invalid out.
            executeSingleSchemaMode JSON_parse context items [] [] ajv opts = Inr (valid, invalid)
          \<and> out \<in> set invalid
          \<and> out = single_caught_item opts (items ! i) i
                    (Error ''Custom JSON is required when Data Source is "Custom JSON"'')
          \<and> pairedItem out = Some i
          \<and> (items ! i)\<lparr>pairedItem := Some i\<rparr> \<notin> set valid
          \<and> js_get (json out) (Key ''validationErrors'')
              = Inr (JArr [JObj [(''field'', JStr ''/''),
                     (''message'', JStr ''Custom JSON is required when Data Source is "Custom JSON"''),
                     (''keyword'', JStr ''parse''), (''params'', JObj [])]])
          \<and> js_get (json out) (Key ''validationMessage'')
              = Inr (JStr ''Custom JSON is required when Data Source is "Custom JSON"'')))\<close>
proof -
  let ?m = \<open>''Custom JSON is required when Data Source is "Custom JSON"''\<close>
  have a: "extractDataToValidate JSON_parse it ''customJson'' cv = Inl (Error ?m)" if "\<not> truthy cv"
    using that by (simp add: extractDataToValidate_def)
  have b: "\<exists>valid invalid out.
            executeSingleSchemaMode JSON_parse context items [] [] ajv opts = Inr (valid, invalid)
          \<and> out \<in> set invalid
          \<and> out = single_caught_item opts (items ! i) i (Error ?m)
          \<and> pairedItem out = Some i
          \<and> (items ! i)\<lparr>pairedItem := Some i\<rparr> \<notin> set valid
          \<and> js_get (json out) (Key ''validationErrors'')
              = Inr (JArr [JObj [(''field'', JStr ''/''), (''message'', JStr ?m),
                     (''keyword'', JStr ''parse''), (''params'', JObj [])]])
          \<and> js_get (json out) (Key ''validationMessage'') = Inr (JStr ?m)"
    if h: "dataSource context = ''customJson''
        \<and> parseSchema JSON_parse (jsonSchema context) = Inr sch \<and> ajv sch = Inr v
        \<and> i < length items \<and> customJson context i = Inr cv \<and> \<not> truthy cv"
  proof -
    let ?ok = "single_ok JSON_parse context v" and ?diag = "single_diag JSON_parse context v opts"
    let ?out = "single_caught_item opts (items ! i) i (Error ?m)"
    have run: "executeSingleSchemaMode JSON_parse context items [] [] ajv opts
               = Inr (fst (routed ?ok ?diag 0 items), snd (routed ?ok ?diag 0 items))"
      using executeSingleSchemaMode_ok [of JSON_parse "context" sch ajv v items opts] h by simp
    have t: "single_try JSON_parse context v i (items ! i) = Inl (Error ?m)"
      using single_try_falsy [of "context" i cv JSON_parse v "items ! i"] h by simp
    have i: "i < length items" using h by simp
    have inv: "?out \<in> set (snd (routed ?ok ?diag 0 items))"
      and nv: "(items ! i)\<lparr>pairedItem := Some i\<rparr> \<notin> set (fst (routed ?ok ?diag 0 items))"
      using routed_single_caught [OF i t] by simp_all
    have p: "pairedItem ?out = Some i"
      by (simp add: single_caught_item_def Let_def)
    have ve: "js_get (json ?out) (Key ''validationErrors'')
        = Inr (JArr [JObj [(''field'', JStr ''/''), (''message'', JStr ?m),
                           (''keyword'', JStr ''parse''), (''params'', JObj [])]])"
      using caught_validationErrors [of opts "items ! i" i "Error ?m"] by simp
    have vm: "js_get (json ?out) (Key ''validationMessage'') = Inr (JStr ?m)"
      using caught_validationMessage [of opts "items ! i" i "Error ?m"] by simp
    show ?thesis
      using run inv nv p ve vm by blast
  qed
  show ?thesis
    using a b by simp
qed

theorem empty_custom_value_is_missing_witness:
  \<open>extractDataToValidate (\<lambda>s. Inr JNull) (example_items ! 0) ''customJson'' (JStr [])
     = Inl (Error ''Custom JSON is required when Data Source is "Custom JSON"'')
   \<and> (\<exists>valid invalid.
         executeSingleSchemaMode example_parse example_single_empty example_items [] [] example_ajv
           example_options = Inr (valid, invalid)
       \<and> single_caught_item example_options (example_items ! 0) 0
           (Error ''Custom JSON is required when Data Source is "Custom JSON"'') \<in> set invalid)\<close>
proof -
  have f: "dataSource example_single_empty = ''customJson''"
    "parseSchema example_parse (jsonSchema example_single_empty) = Inr (JBool True)"
    "customJson example_single_empty 0 = Inr (JStr [])"
    using example_single_facts by (simp_all add: example_single_empty_def)
  have t: "\<not> truthy (JStr [])"
    by simp
  have a: \<open>extractDataToValidate (\<lambda>s. Inr JNull) (example_items ! 0) ''customJson'' (JStr [])
     = Inl (Error ''Custom JSON is required when Data Source is "Custom JSON"'')\<close>
    using empty_custom_value_is_missing [of "JStr []" "\<lambda>s. Inr JNull" "example_items ! 0"] t
    by blast
  have h: "dataSource example_single_empty = ''customJson''
        \<and> parseSchema example_parse (jsonSchema example_single_empty) = Inr (JBool True)
        \<and> example_ajv (JBool True) = Inr passing_validator
        \<and> 0 < length example_items \<and> customJson example_single_empty 0 = Inr (JStr [])
        \<and> \<not> truthy (JStr [])"
    using f example_single_facts(3,4) by simp
  have b: \<open>\<exists>valid invalid.
         executeSingleSchemaMode example_parse example_single_empty example_items [] [] example_ajv
           example_options = Inr (valid, invalid)
       \<and> single_caught_item example_options (example_items ! 0) 0
           (Error ''Custom JSON is required when Data Source is "Custom JSON"'') \<in> set invalid\<close>
    using empty_custom_value_is_missing [of "JStr []" example_parse "example_items ! 0"
        example_single_empty "JBool True" example_ajv passing_validator 0 example_items
        example_options] h
    by blast
  show ?thesis
    using a b by blast
qed

section \<open>Both modes: the two outputs\<close>





end
